theory Spec2Isabelle
  imports Complex_Main
begin

section \<open>Common data: Python faults, floats with infinities, vectors\<close>

text \<open>
  Faults that the modelled Python code can raise. Every raise of the source is a
  branch of the model that returns \<open>Inl\<close> of one of these.
\<close>

datatype py_error =
  TypeError | ValueError | NameError | UnboundLocalError | AttributeError | LinAlgError

text \<open>
  A float as the sources use it for thresholds and caches: a finite value, one of the
  two infinities (\<open>np.inf\<close>, \<open>-np.inf\<close>) or \<open>np.nan\<close>. Finite values are idealised
  as reals (no rounding). Comparisons follow IEEE: every comparison with NaN is false.
\<close>

datatype pyfloat = Fin real | PInf | NInf | NaN

fun fl_less :: "pyfloat \<Rightarrow> pyfloat \<Rightarrow> bool" where
  "fl_less NaN _ = False"
| "fl_less _ NaN = False"
| "fl_less (Fin a) (Fin b) = (a < b)"
| "fl_less (Fin a) PInf = True"
| "fl_less (Fin a) NInf = False"
| "fl_less PInf _ = False"
| "fl_less NInf NInf = False"
| "fl_less NInf _ = True"

fun fl_le :: "pyfloat \<Rightarrow> pyfloat \<Rightarrow> bool" where
  "fl_le NaN _ = False"
| "fl_le _ NaN = False"
| "fl_le (Fin a) (Fin b) = (a \<le> b)"
| "fl_le (Fin a) PInf = True"
| "fl_le (Fin a) NInf = False"
| "fl_le PInf PInf = True"
| "fl_le PInf _ = False"
| "fl_le NInf _ = True"

type_synonym vec = "real list"
type_synonym mat = "real list list"

definition dot :: "vec \<Rightarrow> vec \<Rightarrow> real" where
  "dot xs ys = sum_list (map2 (*) xs ys)"

definition vadd :: "vec \<Rightarrow> vec \<Rightarrow> vec" where
  "vadd xs ys = map2 (+) xs ys"

definition vsub :: "vec \<Rightarrow> vec \<Rightarrow> vec" where
  "vsub xs ys = map2 (-) xs ys"

definition vneg :: "vec \<Rightarrow> vec" where
  "vneg xs = map uminus xs"

definition vscale :: "real \<Rightarrow> vec \<Rightarrow> vec" where
  "vscale c xs = map ((*) c) xs"

text \<open>\<open>np.linalg.norm\<close> of a vector: the Euclidean norm.\<close>

definition norm2 :: "vec \<Rightarrow> real" where
  "norm2 xs = sqrt (dot xs xs)"

text \<open>\<open>x.T.dot(M)\<close> for a vector \<open>x\<close> and a matrix \<open>M\<close> given by its rows.\<close>

definition vec_mat :: "vec \<Rightarrow> mat \<Rightarrow> vec" where
  "vec_mat x M = map (dot x) (transpose M)"

text \<open>The product \<open>M x\<close> of a matrix, given by its rows, and a vector.\<close>

definition mat_vec :: "mat \<Rightarrow> vec \<Rightarrow> vec" where
  "mat_vec M x = map (\<lambda>r. dot r x) M"

section \<open>Linear algebra utilities (utils.py)\<close>

text \<open>
  \<open>np.linalg.cholesky(A)\<close> in exact arithmetic, row by row: it reads the lower
  triangle of \<open>A\<close> only, returns the lower triangular factor with zeros above the
  diagonal, and raises \<open>LinAlgError\<close> when a pivot is not positive.
  \<open>chol_row\<close> computes the entries left of the diagonal of one row from the rows
  already computed.
\<close>

fun chol_row :: "mat \<Rightarrow> vec \<Rightarrow> vec \<Rightarrow> vec" where
  "chol_row [] a acc = acc"
| "chol_row (lj # ls) a acc =
     (let j = length acc
      in chol_row ls a (acc @ [(a ! j - dot acc (take j lj)) / (lj ! j)]))"

fun chol_rows :: "mat \<Rightarrow> mat \<Rightarrow> py_error + mat" where
  "chol_rows [] done = Inr done"
| "chol_rows (a # as) done =
     (let i = length done;
          acc = chol_row done a [];
          r = a ! i - dot acc acc
      in if r \<le> 0 then Inl LinAlgError
         else chol_rows as (done @ [acc @ [sqrt r]]))"

definition pad_row :: "nat \<Rightarrow> vec \<Rightarrow> vec" where
  "pad_row n r = r @ replicate (n - length r) 0"

definition linalg_cholesky :: "mat \<Rightarrow> py_error + mat" where
  "linalg_cholesky A =
     (case chol_rows A [] of
        Inl e \<Rightarrow> Inl e
      | Inr rows \<Rightarrow> Inr (map (pad_row (length A)) rows))"

text \<open>
  \<open>np.linalg.solve\<close> is only ever applied to a Cholesky factor and to its transpose,
  which are triangular with a positive diagonal; there the unique solution is the one
  that substitution computes.
\<close>

fun forward_subst :: "mat \<Rightarrow> vec \<Rightarrow> vec \<Rightarrow> vec" where
  "forward_subst [] b acc = acc"
| "forward_subst (r # rs) b acc =
     (let i = length acc
      in forward_subst rs b (acc @ [(b ! i - dot (take i r) acc) / (r ! i)]))"

definition solve_lower :: "mat \<Rightarrow> vec \<Rightarrow> vec" where
  "solve_lower L b = forward_subst L b []"

definition solve_upper :: "mat \<Rightarrow> vec \<Rightarrow> vec" where
  "solve_upper U b = rev (forward_subst (map rev (rev U)) (rev b) [])"

text \<open>
  \<open>cholesky_solve(A, b)\<close>: factorizes its first argument and solves with the factor
  and its transpose.
\<close>

definition cholesky_solve :: "mat \<Rightarrow> vec \<Rightarrow> py_error + vec" where
  "cholesky_solve A b =
     (case linalg_cholesky A of
        Inl e \<Rightarrow> Inl e
      | Inr L \<Rightarrow> Inr (solve_upper (transpose L) (solve_lower L b)))"

section \<open>The Lagrangian relaxation of a box-constrained quadratic (constrained/bcqp/\_base.py)\<close>

text \<open>
  Modelled from the spec: the class \<open>Quadratic\<close> is not among the sources; the primal
  objective it evaluates is \<open>1/2 x'Qx + q'x\<close>.
\<close>

definition quadratic_function :: "mat \<Rightarrow> vec \<Rightarrow> vec \<Rightarrow> real" where
  "quadratic_function Q q x = dot (vscale (1/2) (vec_mat x Q)) x + dot q x"

text \<open>
  The object's fields. Arrays that the code shares and mutates in place live in a store
  (\<open>heap\<close>, addressed by position): \<open>last_x\<close> and \<open>primal_x\<close> hold addresses, so that
  two fields naming one array see each other's writes. \<open>primal_x = None\<close> stands for the
  initial \<open>np.inf\<close>. \<open>lmbda\<close> arrays are held by value: the caller is taken not to
  mutate an array it has passed in. \<open>n_fact\<close> is an instrumentation counter: the number of
  calls of \<open>np.linalg.cholesky\<close> made so far on behalf of this object.
\<close>

record lbr =
  Q :: mat
  q :: vec
  L :: mat
  ub :: vec
  ndim :: nat
  primal :: "vec \<Rightarrow> real"
  primal_x :: "nat option"
  primal_f_x :: pyfloat
  last_lmbda :: "vec option"
  last_x :: "nat option"
  heap :: "vec list"
  n_fact :: nat

text \<open>
  \<open>__init__(quad, ub)\<close>. \<open>nearest_posdef\<close> is imported from a module that is not among
  the sources and is taken as a parameter; \<open>quadQ\<close>, \<open>quadq\<close> and \<open>quadf\<close> are
  \<open>quad.Q\<close>, \<open>quad.q\<close> and \<open>quad.function\<close>.
\<close>

definition lbr_init ::
  "(mat \<Rightarrow> mat) \<Rightarrow> mat \<Rightarrow> vec \<Rightarrow> (vec \<Rightarrow> real) \<Rightarrow> vec \<Rightarrow> py_error + lbr" where
  "lbr_init nearest_posdef quadQ quadq quadf ub0 =
     (let Q0 = nearest_posdef quadQ
      in case linalg_cholesky Q0 of
           Inl e \<Rightarrow> Inl e
         | Inr L0 \<Rightarrow>
             if list_ex (\<lambda>u. u < 0) ub0 then Inl ValueError
             else Inr \<lparr>Q = Q0, q = quadq, L = L0, ub = ub0, ndim = 2 * length quadq,
                       primal = quadf, primal_x = None, primal_f_x = PInf,
                       last_lmbda = None, last_x = None, heap = [], n_fact = 1\<rparr>)"

text \<open>\<open>x_star()\<close> and \<open>f_star()\<close>. The raise statement's operand is evaluated first.\<close>

datatype pyobj = ExceptionObj py_error | ArrayObj "pyfloat list"

definition py_raise :: "pyobj \<Rightarrow> py_error + 'a" where
  "py_raise obj = (case obj of ExceptionObj e \<Rightarrow> Inl e | ArrayObj _ \<Rightarrow> Inl TypeError)"

definition np_full :: "pyfloat \<Rightarrow> nat \<Rightarrow> pyobj" where
  "np_full fill_value shape = ArrayObj (replicate shape fill_value)"

definition x_star :: "lbr \<Rightarrow> py_error + vec" where
  "x_star s = py_raise (np_full NaN (ndim s))"

definition f_star :: "lbr \<Rightarrow> pyfloat" where
  "f_star s = PInf"

text \<open>
  \<open>np.split(lmbda, 2)\<close> raises \<open>ValueError\<close> on an odd length. The sum
  \<open>self.q + lmbda_p - lmbda_n\<close> needs halves of the length of \<open>q\<close>; a \<open>lmbda\<close> of another
  length is a \<open>ValueError\<close> here (numpy's broadcasting of a half of length one is left out).
\<close>

definition np_split2 :: "vec \<Rightarrow> vec \<Rightarrow> py_error + (vec \<times> vec)" where
  "np_split2 q0 lmbda =
     (if length lmbda mod 2 = 1 then Inl ValueError
      else if length lmbda = 2 * length q0
      then Inr (take (length lmbda div 2) lmbda, drop (length lmbda div 2) lmbda)
      else Inl ValueError)"

definition alloc :: "vec list \<Rightarrow> vec \<Rightarrow> nat \<times> vec list" where
  "alloc h v = (length h, h @ [v])"

definition dual_value :: "lbr \<Rightarrow> vec \<Rightarrow> vec \<Rightarrow> vec \<Rightarrow> real" where
  "dual_value s ql lmbda_p x =
     dot (vadd (vscale (1/2) (vec_mat x (Q s))) ql) x - dot lmbda_p (ub s)"

text \<open>\<open>function(lmbda)\<close>: the value and the object after the call.\<close>

definition lbr_function :: "lbr \<Rightarrow> vec \<Rightarrow> py_error + (real \<times> lbr)" where
  "lbr_function s lmbda =
     (case np_split2 (q s) lmbda of
        Inl e \<Rightarrow> Inl e
      | Inr (lmbda_p, lmbda_n) \<Rightarrow>
          let ql = vsub (vadd (q s) lmbda_p) lmbda_n
          in if last_lmbda s = Some lmbda then
               (case last_x s of
                  None \<Rightarrow> Inl AttributeError
                | Some a \<Rightarrow> Inr (dual_value s ql lmbda_p (heap s ! a), s))
             else
               (case cholesky_solve (L s) (vneg ql) of
                  Inl e \<Rightarrow> Inl e
                | Inr x \<Rightarrow>
                    let (a, h) = alloc (heap s) x;
                        s' = s\<lparr>last_lmbda := Some lmbda, last_x := Some a, heap := h,
                               n_fact := n_fact s + 1\<rparr>
                    in Inr (dual_value s' ql lmbda_p x, s')))"

text \<open>
  The projection on the box that \<open>jacobian\<close> writes into \<open>x\<close> in place:
  \<open>x[x < 0] = 0\<close>, then \<open>x[x > ub] = ub[x > ub]\<close>.
\<close>

definition project_box :: "vec \<Rightarrow> vec \<Rightarrow> vec" where
  "project_box ub0 x =
     map2 (\<lambda>xi ui. let y = (if xi < 0 then 0 else xi) in if y > ui then ui else y) x ub0"

text \<open>
  The tail of \<open>jacobian\<close> once \<open>x\<close> is the array at address \<open>a\<close>: the gradient is built
  from the array as it is, then the array is overwritten with its projection, and the
  primal cache is updated.
\<close>

definition jacobian_tail :: "lbr \<Rightarrow> nat \<Rightarrow> vec \<times> lbr" where
  "jacobian_tail s a =
     (let x = heap s ! a;
          g = vsub (ub s) x @ x;
          px = project_box (ub s) x;
          s1 = s\<lparr>heap := (heap s)[a := px]\<rparr>;
          v = primal s px
      in if fl_less (Fin v) (primal_f_x s1)
         then (g, s1\<lparr>primal_x := Some a, primal_f_x := Fin (- v)\<rparr>)
         else (g, s1))"

definition lbr_jacobian :: "lbr \<Rightarrow> vec \<Rightarrow> py_error + (vec \<times> lbr)" where
  "lbr_jacobian s lmbda =
     (if last_lmbda s = Some lmbda then
        (case last_x s of
           None \<Rightarrow> Inl TypeError
         | Some a \<Rightarrow> Inr (jacobian_tail s a))
      else
        (case np_split2 (q s) lmbda of
           Inl e \<Rightarrow> Inl e
         | Inr (lmbda_p, lmbda_n) \<Rightarrow>
             let ql = vsub (vadd (q s) lmbda_p) lmbda_n
             in (case cholesky_solve (L s) (vneg ql) of
                   Inl e \<Rightarrow> Inl e
                 | Inr x \<Rightarrow>
                     let (a, h) = alloc (heap s) x
                     in Inr (jacobian_tail
                               (s\<lparr>last_lmbda := Some lmbda, last_x := Some a, heap := h,
                                  n_fact := n_fact s + 1\<rparr>) a))))"

section \<open>The accelerated gradient method (accelerated\_gradient.py)\<close>

datatype status = Optimal | Unbounded | Stopped | Error

text \<open>A loop iteration either leaves the loop with a result or hands on the next state.\<close>

datatype ('r, 's) iteration = Done 'r | Next 's

text \<open>
  What \<open>backtracking_line_search\<close> returns (its fifth component is discarded by the
  caller). The function itself is not among the sources and is a parameter of the model,
  applied to the arguments of the call that vary: \<open>d\<close>, \<open>self.x\<close>, \<open>last_x\<close>, \<open>last_g\<close>,
  \<open>f_eval\<close>, \<open>v\<close>, \<open>-ng\<close> and \<open>abs(self.a_start)\<close>.
\<close>

record ls_result =
  ls_a :: real
  ls_v :: real
  ls_last_x :: vec
  ls_last_g :: vec
  ls_f_eval :: int

type_synonym line_search =
  "vec \<Rightarrow> vec \<Rightarrow> vec \<Rightarrow> vec \<Rightarrow> int \<Rightarrow> real \<Rightarrow> real \<Rightarrow> real \<Rightarrow> ls_result"

text \<open>
  The fields of the optimizer that \<open>minimize\<close> only reads. \<open>ag_function\<close> and
  \<open>ag_jacobian\<close> are \<open>self.f.function\<close> and \<open>self.f.jacobian\<close>.
\<close>

record ag_params =
  ag_function :: "vec \<Rightarrow> real"
  ag_jacobian :: "vec \<Rightarrow> vec"
  ag_line_search :: line_search
  ag_m1 :: real
  ag_mon :: real
  ag_wf :: real
  ag_eps :: real
  ag_max_f_eval :: int
  ag_m_inf :: pyfloat
  ag_min_a :: real

text \<open>The checks of \<open>__init__\<close> on \<open>m1\<close> and \<open>wf\<close>.\<close>

definition ag_init :: "ag_params \<Rightarrow> py_error + ag_params" where
  "ag_init P =
     (if ag_m1 P < 0 \<or> ag_m1 P \<ge> 1 then Inl ValueError
      else if ag_wf P < 0 \<or> ag_wf P > 3 then Inl ValueError
      else Inr P)"

text \<open>
  The variables that \<open>minimize\<close> updates. \<open>xv\<close> is a local variable with no initial
  assignment: \<open>None\<close> is unbound. \<open>past_x\<close> and \<open>past_xv\<close> are bound only in the monotone
  version and only read there; the model gives them their monotone initial values in both.
\<close>

record ag_state =
  ag_x :: vec
  ag_y :: vec
  past_x :: vec
  past_xv :: pyfloat
  xv :: "real option"
  ag_last_x :: vec
  ag_last_g :: vec
  f_eval :: int
  ag_i :: int
  gamma :: real
  a_start :: real

definition ag_start :: "vec \<Rightarrow> real \<Rightarrow> ag_state" where
  "ag_start x0 a0 =
     \<lparr>ag_x = x0, ag_y = x0, past_x = x0, past_xv = PInf, xv = None,
      ag_last_x = replicate (length x0) 0, ag_last_g = replicate (length x0) 0,
      f_eval = 1, ag_i = 1, gamma = 1, a_start = a0\<rparr>"

text \<open>
  The momentum formulas. For \<open>wf < 3\<close> the result is \<open>(gamma, beta)\<close>; \<open>beta\<close> is assigned
  only for \<open>wf\<close> equal to 0, 1 or 2 and is unbound otherwise.
\<close>

definition black_magic :: "real \<Rightarrow> int \<Rightarrow> real \<Rightarrow> real \<times> real option" where
  "black_magic w i gam =
     (if w = 0 then
        (let gam' = (sqrt (4 * gam\<^sup>2 + gam ^ 4) - gam\<^sup>2) / 2
         in (gam', Some (gam' * (1 / gam - 1))))
      else if w = 1 then
        (let gam' = (1 + sqrt (1 + 4 * gam)) / 2
         in (gam', Some ((gam - 1) / gam')))
      else if w = 2 then (gam, Some (real_of_int i / real_of_int (i + 3)))
      else (gam, None))"

text \<open>The tail of an iteration, from the momentum formulas on.\<close>

definition ag_extrapolate ::
  "ag_params \<Rightarrow> ag_state \<Rightarrow> vec \<Rightarrow> real \<Rightarrow> vec \<Rightarrow> (py_error + vec \<times> status, ag_state) iteration" where
  "ag_extrapolate P s g a lx =
     (let i = ag_i s;
          (gam', beta) = black_magic (ag_wf P) i (gamma s)
      in if ag_wf P < 3 then
           (case beta of
              None \<Rightarrow> Done (Inl UnboundLocalError)
            | Some b \<Rightarrow>
                Next (s\<lparr>ag_y := vadd lx (vscale b (vsub lx (ag_x s))), ag_x := lx,
                        ag_last_x := lx, gamma := gam', ag_i := i + 1\<rparr>))
         else
           (let d = vadd (vscale (2 / real_of_int (i + 2)) g)
                         (vscale (real_of_int i / real_of_int (i + 2)) (vneg g));
                z = vscale (- (real_of_int ((i + 1) * (i + 2)) * a / 4)) d
            in Next (s\<lparr>ag_y := vadd (vscale (2 / real_of_int (i + 3)) z)
                                     (vscale (real_of_int (i + 1) / real_of_int (i + 3)) lx),
                       ag_x := lx, ag_last_x := lx, gamma := gam', ag_i := i + 1\<rparr>)))"

text \<open>One pass through the body of the \<open>while True\<close> loop.\<close>

definition ag_iteration ::
  "ag_params \<Rightarrow> ag_state \<Rightarrow> (py_error + vec \<times> status, ag_state) iteration" where
  "ag_iteration P s0 =
     (let v = ag_function P (ag_y s0);
          g = ag_jacobian P (ag_y s0);
          ng = norm2 g;
          ng0 = (if f_eval s0 = 1 \<and> ag_eps P < 0 then - ng else 1);
          s1 = s0\<lparr>f_eval := f_eval s0 + 1\<rparr>;
          s2 = (if ag_mon P \<noteq> 0 \<and> fl_less (Fin v) (past_xv s1)
                then s1\<lparr>ag_x := ag_y s1, past_xv := Fin v\<rparr> else s1)
      in if ng \<le> ag_eps P * ng0 then Done (Inr (ag_x s2, Optimal))
         else if f_eval s2 > ag_max_f_eval P then Done (Inr (ag_x s2, Stopped))
         else
           (let d = vneg g;
                (a, v', s3) =
                  (if ag_m1 P > 0 then
                     (let r = ag_line_search P d (ag_x s2) (ag_last_x s2) (ag_last_g s2)
                                (f_eval s2) v (- ng) \<bar>a_start s2\<bar>
                      in (ls_a r, ls_v r,
                          s2\<lparr>ag_last_x := ls_last_x r, ag_last_g := ls_last_g r,
                             f_eval := ls_f_eval r,
                             a_start := (if a_start s2 < 0 then - ls_a r else a_start s2)\<rparr>))
                   else
                     (let a = \<bar>a_start s2\<bar>;
                          lx = vsub (ag_y s2) (vscale a g)
                      in (a, v,
                          s2\<lparr>ag_last_x := lx,
                             xv := (if ag_mon P \<noteq> 0 then Some (ag_function P lx) else xv s2)\<rparr>)))
            in if a \<le> ag_min_a P then Done (Inr (ag_x s3, Error))
               else if fl_le (Fin v') (ag_m_inf P) then Done (Inr (ag_x s3, Unbounded))
               else if ag_mon P \<noteq> 0 then
                 (case xv s3 of
                    None \<Rightarrow> Done (Inl UnboundLocalError)
                  | Some w \<Rightarrow>
                      if fl_less (past_xv s3) (Fin w)
                      then ag_extrapolate P s3 g a (past_x s3)
                      else ag_extrapolate P
                             (s3\<lparr>past_x := ag_last_x s3, past_xv := Fin w\<rparr>) g a (ag_last_x s3))
               else ag_extrapolate P s3 g a (ag_last_x s3)))"

text \<open>
  The loop, with fuel: \<open>None\<close> means that the fuel ran out before the loop was left.
\<close>

fun ag_loop :: "nat \<Rightarrow> ag_params \<Rightarrow> ag_state \<Rightarrow> (py_error + vec \<times> status) option" where
  "ag_loop 0 P s = None"
| "ag_loop (Suc k) P s =
     (case ag_iteration P s of Done r \<Rightarrow> Some r | Next s' \<Rightarrow> ag_loop k P s')"

definition ag_minimize ::
  "nat \<Rightarrow> ag_params \<Rightarrow> vec \<Rightarrow> real \<Rightarrow> (py_error + vec \<times> status) option" where
  "ag_minimize fuel P x0 a0 = ag_loop fuel P (ag_start x0 a0)"

section \<open>The proximal bundle method (proximal\_bundle.py)\<close>

text \<open>
  What \<open>self.f.function\<close> returns. The file uses it in two ways: line 110 takes the
  result as the scalar value, line 174 unpacks it into a value and a subgradient
  (\<open>fd, g = self.f.function(self.x + d)\<close>).
\<close>

datatype fres = Scalar real | ValGrad real vec

text \<open>
  The global names of the module. The loop builds and solves its master problem with
  \<open>sdpvar\<close>, \<open>n\<close>, \<open>sdpsettings\<close>, \<open>optimize\<close> and \<open>value\<close>, and appends to the bundle
  with \<open>OMPCSEMI\<close>; the module as written (\<open>AsWritten\<close>) neither defines nor imports any
  of them. \<open>SolverNamesBound\<close> is the module with \<open>sdpvar\<close> and \<open>n\<close> bound from outside,
  to a callable that returns and to a number.
\<close>

datatype namespace = AsWritten | SolverNamesBound

record pb_params =
  pb_function :: "vec \<Rightarrow> fres"
  pb_jacobian :: "vec \<Rightarrow> vec"
  pb_f_star :: pyfloat
  pb_mu :: real
  pb_m1 :: real
  pb_eps :: real
  pb_max_iter :: int
  pb_m_inf :: pyfloat
  module_names :: namespace

text \<open>The checks of \<open>__init__\<close> on \<open>mu\<close> and \<open>m1\<close>.\<close>

definition pb_init :: "pb_params \<Rightarrow> py_error + pb_params" where
  "pb_init P =
     (if pb_mu P \<le> 0 then Inl ValueError
      else if pb_m1 P < 0 \<or> pb_m1 P > 1 then Inl ValueError
      else Inr P)"

text \<open>
  Points are \<open>[n x 1]\<close> column arrays, so \<open>g.T\<close> is a \<open>[1 x n]\<close> row and numpy's \<open>*\<close>
  broadcasts the two to the \<open>[n x n]\<close> array of the products \<open>x_i * g_j\<close>.
  \<open>fx - g.T * x\<close> subtracts each entry from the scalar.
\<close>

definition row_times_col :: "vec \<Rightarrow> vec \<Rightarrow> mat" where
  "row_times_col g x = map (\<lambda>xi. map (\<lambda>gj. gj * xi) g) x"

definition translated_value :: "real \<Rightarrow> vec \<Rightarrow> vec \<Rightarrow> mat" where
  "translated_value fv g x = map (map (\<lambda>e. fv - e)) (row_times_col g x)"

text \<open>
  The loop's variables: the incumbent \<open>self.x\<close>, its value \<open>fx\<close>, the bundle as the
  pairs (row of \<open>G\<close>, entry of \<open>F\<close>), \<open>ng0\<close> and the counter \<open>i\<close>.
\<close>

record pb_state =
  pb_x :: vec
  fx :: real
  bundle_GF :: "(vec \<times> mat) list"
  ng0 :: real
  pb_i :: int

text \<open>
  The statements before the loop (lines 101 to 129). A first evaluation that does not
  return a scalar is outside the model and counted as a fault.
\<close>

definition pb_start :: "pb_params \<Rightarrow> vec \<Rightarrow> py_error + pb_state" where
  "pb_start P x0 =
     (case pb_function P x0 of
        ValGrad _ _ \<Rightarrow> Inl TypeError
      | Scalar fx0 \<Rightarrow>
          let g = pb_jacobian P x0;
              ng = norm2 g
          in Inr \<lparr>pb_x = x0, fx = fx0, bundle_GF = [(g, translated_value fx0 g x0)],
                   ng0 = (if pb_eps P < 0 then - ng else 1), pb_i = 1\<rparr>)"

text \<open>
  One pass through the body of the \<open>while True\<close> loop. Its first statement, line 132,
  calls \<open>sdpvar(n, 1)\<close>: in the module as written the name is unbound and the pass ends
  there with a \<open>NameError\<close>. With the names bound, line 135 evaluates
  \<open>np.ones(np.size(G, 1), 1)\<close>, whose second argument is the dtype; 1 is not a data type,
  and the pass ends there with a \<open>TypeError\<close>. Either way no statement after line 135
  is reached: the solver call, the stopping tests, the evaluation at the trial point
  (line 174), the appending to the bundle (lines 180 and 181, which name the unbound
  \<open>OMPCSEMI\<close>) and the serious-step test (line 187) take no part in the result of a
  pass.
\<close>

definition pb_iteration ::
  "pb_params \<Rightarrow> pb_state \<Rightarrow> (py_error + vec \<times> status, pb_state) iteration" where
  "pb_iteration P s =
     (case module_names P of
        AsWritten \<Rightarrow> Done (Inl NameError)
      | SolverNamesBound \<Rightarrow> Done (Inl TypeError))"

lemma pb_iteration_no_Next: "pb_iteration P s \<noteq> Next s'"
  by (simp add: pb_iteration_def split: namespace.splits)

text \<open>The loop: it goes on for as long as a pass hands on a state.\<close>

function pb_loop :: "pb_params \<Rightarrow> pb_state \<Rightarrow> py_error + vec \<times> status" where
  "pb_loop P s = (case pb_iteration P s of Done r \<Rightarrow> r | Next s' \<Rightarrow> pb_loop P s')"
  by pat_completeness auto
termination
  by (relation "{}") (auto simp: pb_iteration_no_Next)

declare pb_loop.simps [simp del]

definition pb_minimize :: "pb_params \<Rightarrow> vec \<Rightarrow> py_error + vec \<times> status" where
  "pb_minimize P x0 = (case pb_start P x0 of Inl e \<Rightarrow> Inl e | Inr s \<Rightarrow> pb_loop P s)"

section \<open>Invariant of the relaxation object and concrete instances\<close>

text \<open>
  A relaxation object is well formed when \<open>last_x\<close> is an address of the store, no
  \<open>lmbda\<close> is remembered without its \<open>x\<close>, and no upper bound is negative (the
  constructor refuses a negative one).
\<close>

definition lbr_inv :: "lbr \<Rightarrow> bool" where
  "lbr_inv s =
     ((case last_x s of None \<Rightarrow> last_lmbda s = None | Some a \<Rightarrow> a < length (heap s)) \<and>
      list_all (\<lambda>u. 0 \<le> u) (ub s))"

text \<open>
  A one-dimensional relaxation: \<open>Q = [[16]]\<close>, \<open>q = [-12]\<close>, box \<open>[0, 1]\<close>, as
  \<open>__init__\<close> builds it (with a repair that leaves \<open>Q\<close> as it is).
\<close>

definition lbr_ex :: lbr where
  "lbr_ex = \<lparr>Q = [[16]], q = [-12], L = [[4]], ub = [1], ndim = 2,
             primal = quadratic_function [[16]] [-12], primal_x = None, primal_f_x = PInf,
             last_lmbda = None, last_x = None, heap = [], n_fact = 1\<rparr>"

text \<open>The same object after \<open>function([0, 0])\<close>.\<close>

definition lbr_ex_f :: lbr where
  "lbr_ex_f = lbr_ex\<lparr>last_lmbda := Some [0, 0], last_x := Some 0, heap := [[3]], n_fact := 2\<rparr>"

text \<open>
  A relaxation in three dimensions: \<open>Q = 16 I\<close>, \<open>q = [-12, 4, -2]\<close>, box \<open>[0, 1]^3\<close>.
  At \<open>lmbda = 0\<close> the solve gives \<open>[3, -1, 1/2]\<close>: one entry above the box, one below
  and one inside. \<open>lbr_ex3_j\<close> is the object after \<open>jacobian\<close> at \<open>lmbda = 0\<close>.
\<close>

definition lbr_ex3 :: lbr where
  "lbr_ex3 = \<lparr>Q = [[16, 0, 0], [0, 16, 0], [0, 0, 16]], q = [-12, 4, -2],
              L = [[4, 0, 0], [0, 4, 0], [0, 0, 4]], ub = [1, 1, 1], ndim = 6,
              primal = quadratic_function [[16, 0, 0], [0, 16, 0], [0, 0, 16]] [-12, 4, -2],
              primal_x = None, primal_f_x = PInf,
              last_lmbda = None, last_x = None, heap = [], n_fact = 1\<rparr>"

definition lbr_ex3_j :: lbr where
  "lbr_ex3_j = lbr_ex3\<lparr>last_lmbda := Some [0, 0, 0, 0, 0, 0], last_x := Some 0,
                       heap := [[1, 0, 1/2]], n_fact := 2,
                       primal_x := Some 0, primal_f_x := Fin 3\<rparr>"

text \<open>
  An accelerated gradient run on \<open>f(x) = x^2 / 2\<close> in one dimension, from \<open>x = [4]\<close>
  with the fixed step \<open>1/2\<close>, \<open>eps = -1/2\<close>, \<open>wf = 2\<close>, the non-monotone version and a
  budget of three evaluations. The line search (unused for \<open>m1 = 0\<close>) accepts the first
  step it is given. \<open>ag_ex_s1\<close> is the state after the first pass.
\<close>

definition ag_ex :: ag_params where
  "ag_ex = \<lparr>ag_function = (\<lambda>x. dot x x / 2), ag_jacobian = (\<lambda>x. x),
            ag_line_search = (\<lambda>d x lx lg fe v dg a.
               \<lparr>ls_a = a, ls_v = v, ls_last_x = vadd x (vscale a d), ls_last_g = lg,
                ls_f_eval = fe + 1\<rparr>),
            ag_m1 = 0, ag_mon = 0, ag_wf = 2, ag_eps = - 1/2, ag_max_f_eval = 3,
            ag_m_inf = NInf, ag_min_a = 1 / 10 ^ 16\<rparr>"

definition ag_ex_s1 :: ag_state where
  "ag_ex_s1 = \<lparr>ag_x = [2], ag_y = [3/2], past_x = [4], past_xv = PInf, xv = None,
               ag_last_x = [2], ag_last_g = [0], f_eval = 2, ag_i = 2, gamma = 1,
               a_start = 1/2\<rparr>"

text \<open>The same problem in the monotone version with the line search switched on.\<close>

definition ag_ex_mon :: ag_params where
  "ag_ex_mon = ag_ex\<lparr>ag_mon := 1, ag_m1 := 1/10\<rparr>"

text \<open>
  Proximal bundle instances on \<open>f(x) = x1^2 + ... + xn^2\<close> with \<open>function\<close> returning the
  scalar value: the module as written, and the module with the solver's names bound.
\<close>

definition pb_ex_unbound :: pb_params where
  "pb_ex_unbound = \<lparr>pb_function = (\<lambda>x. Scalar (dot x x)), pb_jacobian = vscale 2,
                    pb_f_star = NInf, pb_mu = 1, pb_m1 = 1/100, pb_eps = 1 / 10 ^ 6,
                    pb_max_iter = 1000, pb_m_inf = NInf, module_names = AsWritten\<rparr>"

definition pb_ex_scalar :: pb_params where
  "pb_ex_scalar = pb_ex_unbound\<lparr>module_names := SolverNamesBound\<rparr>"

section \<open>Basic facts\<close>

lemma sqrt_16: "sqrt 16 = (4::real)"
  by (rule real_sqrt_unique) simp_all

lemmas lbr_eval_defs =
  lbr_function_def lbr_jacobian_def jacobian_tail_def project_box_def quadratic_function_def
  np_split2_def cholesky_solve_def linalg_cholesky_def pad_row_def dot_def Let_def
  solve_upper_def solve_lower_def vsub_def vadd_def vneg_def alloc_def dual_value_def
  vscale_def vec_mat_def

lemma jacobian_tail_fields:
  "last_lmbda (snd (jacobian_tail s a)) = last_lmbda s"
  "last_x (snd (jacobian_tail s a)) = last_x s"
  "n_fact (snd (jacobian_tail s a)) = n_fact s"
  "ub (snd (jacobian_tail s a)) = ub s"
  "q (snd (jacobian_tail s a)) = q s"
  "Q (snd (jacobian_tail s a)) = Q s"
  "L (snd (jacobian_tail s a)) = L s"
  "heap (snd (jacobian_tail s a)) = (heap s)[a := project_box (ub s) (heap s ! a)]"
  "fst (jacobian_tail s a) = vsub (ub s) (heap s ! a) @ heap s ! a"
  by (simp_all add: jacobian_tail_def Let_def)

section \<open>Claims about the Lagrangian relaxation\<close>

text \<open>
  C10. \<open>x_star()\<close> never returns a point: its raise statement has an array as operand,
  which is a \<open>TypeError\<close> at every call, for every object. \<open>f_star()\<close> always returns
  positive infinity.
\<close>

theorem x_star_raises_type_error: "x_star s = Inl TypeError \<and> f_star s = PInf"
  by (simp add: x_star_def py_raise_def np_full_def f_star_def)

text \<open>
  C5. When \<open>function(lmbda)\<close> has returned, a call of \<open>jacobian\<close> at the same \<open>lmbda\<close>
  takes the memo branch: it returns the gradient \<open>(ub - x, x)\<close> built from the stored
  array \<open>x\<close>, the one the value of \<open>function\<close> was computed from, and it solves nothing
  (the branch contains no solve: the factorization counter stands still and no array is
  added to the store).
\<close>

theorem jacobian_after_function_reuses_memo:
  assumes "lbr_function s lmbda = Inr (v, s1)"
  shows "\<exists>a lmbda_p lmbda_n.
           np_split2 (q s) lmbda = Inr (lmbda_p, lmbda_n) \<and>
           last_x s1 = Some a \<and>
           v = dual_value s1 (vsub (vadd (q s) lmbda_p) lmbda_n) lmbda_p (heap s1 ! a) \<and>
           lbr_jacobian s1 lmbda = Inr (jacobian_tail s1 a) \<and>
           fst (jacobian_tail s1 a) = vsub (ub s1) (heap s1 ! a) @ heap s1 ! a \<and>
           n_fact (snd (jacobian_tail s1 a)) = n_fact s1 \<and>
           length (heap (snd (jacobian_tail s1 a))) = length (heap s1)"
  using assms
  by (auto simp: lbr_function_def lbr_jacobian_def alloc_def Let_def jacobian_tail_fields
           split: sum.splits prod.splits if_splits option.splits)

lemma lbr_ex_function: "lbr_function lbr_ex [0, 0] = Inr (36, lbr_ex_f)"
  by (simp add: lbr_ex_def lbr_ex_f_def lbr_eval_defs)

theorem jacobian_after_function_witness:
  "lbr_function lbr_ex [0, 0] = Inr (36, lbr_ex_f) \<and>
   (\<exists>a lmbda_p lmbda_n.
       np_split2 (q lbr_ex) [0, 0] = Inr (lmbda_p, lmbda_n) \<and>
       last_x lbr_ex_f = Some a \<and>
       36 = dual_value lbr_ex_f (vsub (vadd (q lbr_ex) lmbda_p) lmbda_n) lmbda_p
              (heap lbr_ex_f ! a) \<and>
       lbr_jacobian lbr_ex_f [0, 0] = Inr (jacobian_tail lbr_ex_f a) \<and>
       fst (jacobian_tail lbr_ex_f a) = vsub (ub lbr_ex_f) (heap lbr_ex_f ! a) @ heap lbr_ex_f ! a \<and>
       n_fact (snd (jacobian_tail lbr_ex_f a)) = n_fact lbr_ex_f \<and>
       length (heap (snd (jacobian_tail lbr_ex_f a))) = length (heap lbr_ex_f)) \<and>
   fst (jacobian_tail lbr_ex_f 0) = [-2, 3]"
proof -
  have e: "fst (jacobian_tail lbr_ex_f 0) = [-2, 3]"
    by (simp add: jacobian_tail_fields lbr_ex_f_def lbr_ex_def vsub_def)
  show ?thesis
    using lbr_ex_function jacobian_after_function_reuses_memo [OF lbr_ex_function] e
    by blast
qed

text \<open>
  The invariant holds of every object the constructor returns and is kept by
  \<open>function\<close> and \<open>jacobian\<close>.
\<close>

lemma lbr_init_inv: "lbr_init npd quadQ quadq quadf ub0 = Inr s \<Longrightarrow> lbr_inv s"
  by (auto simp: lbr_init_def lbr_inv_def Let_def list_all_iff list_ex_iff not_less
           split: sum.splits if_splits)

lemma lbr_function_inv:
  "lbr_inv s \<Longrightarrow> lbr_function s lmbda = Inr (v, s1) \<Longrightarrow> lbr_inv s1"
  by (auto simp: lbr_function_def lbr_inv_def alloc_def Let_def
           split: sum.splits prod.splits if_splits option.splits)

lemma lbr_jacobian_inv:
  "lbr_inv s \<Longrightarrow> lbr_jacobian s lmbda = Inr (g, s1) \<Longrightarrow> lbr_inv s1"
  by (auto simp: lbr_jacobian_def lbr_inv_def alloc_def Let_def jacobian_tail_def
           split: sum.splits prod.splits if_splits option.splits)

text \<open>
  What the in-place writes of \<open>jacobian\<close> leave in the array, entry by entry: with no
  negative upper bound every entry ends in \<open>[0, ub_i]\<close>, an entry below 0 becomes 0, an
  entry above \<open>ub_i\<close> becomes \<open>ub_i\<close>, and an entry inside the box is kept.
\<close>

lemma project_box_length: "length (project_box u x) = min (length x) (length u)"
  by (simp add: project_box_def)

lemma project_box_nth:
  assumes "i < length x" and "i < length u"
  shows "project_box u x ! i =
           (if (if x ! i < 0 then 0 else x ! i) > u ! i then u ! i
            else (if x ! i < 0 then 0 else x ! i))"
  using assms by (simp add: project_box_def Let_def)

lemma project_box_onto_box:
  assumes "list_all (\<lambda>u. 0 \<le> u) u" and "i < length (project_box u x)"
  shows "0 \<le> project_box u x ! i \<and> project_box u x ! i \<le> u ! i \<and>
         (x ! i < 0 \<longrightarrow> project_box u x ! i = 0) \<and>
         (u ! i < x ! i \<longrightarrow> project_box u x ! i = u ! i) \<and>
         (0 \<le> x ! i \<and> x ! i \<le> u ! i \<longrightarrow> project_box u x ! i = x ! i)"
proof -
  from assms(2) have i: "i < length x" "i < length u"
    by (simp_all add: project_box_length)
  from assms(1) i(2) have "0 \<le> u ! i"
    by (simp add: list_all_length)
  then show ?thesis
    by (auto simp: project_box_nth [OF i])
qed

text \<open>
  C8. \<open>jacobian\<close> writes the projection on the box into the very array that \<open>last_x\<close>
  names. After a call of \<open>jacobian\<close> at \<open>lmbda\<close> that used the point \<open>x0\<close> (on a memo miss
  the result of the solve), the memo holds \<open>lmbda\<close> with the projection of \<open>x0\<close> on
  \<open>[0, ub]\<close>: every entry of the stored array lies between 0 and its upper bound, is 0
  where \<open>x0\<close> was negative, the upper bound where \<open>x0\<close> exceeded it, and the entry of \<open>x0\<close>
  where that was inside. A following \<open>function\<close> call at \<open>lmbda\<close> evaluates the dual at
  this stored array, and a following \<open>jacobian\<close> call builds its gradient from it.
\<close>

theorem jacobian_leaves_projection_in_memo:
  assumes "lbr_inv s" and "lbr_jacobian s lmbda = Inr (g, s1)"
  shows "\<exists>a x0.
           g = vsub (ub s) x0 @ x0 \<and>
           (last_lmbda s \<noteq> Some lmbda \<longrightarrow>
              (\<exists>lmbda_p lmbda_n. np_split2 (q s) lmbda = Inr (lmbda_p, lmbda_n) \<and>
                 cholesky_solve (L s) (vneg (vsub (vadd (q s) lmbda_p) lmbda_n)) = Inr x0)) \<and>
           last_lmbda s1 = Some lmbda \<and> last_x s1 = Some a \<and>
           heap s1 ! a = project_box (ub s) x0 \<and>
           length (heap s1 ! a) = min (length x0) (length (ub s)) \<and>
           (\<forall>i < length (heap s1 ! a).
              0 \<le> heap s1 ! a ! i \<and> heap s1 ! a ! i \<le> ub s ! i \<and>
              (x0 ! i < 0 \<longrightarrow> heap s1 ! a ! i = 0) \<and>
              (ub s ! i < x0 ! i \<longrightarrow> heap s1 ! a ! i = ub s ! i) \<and>
              (0 \<le> x0 ! i \<and> x0 ! i \<le> ub s ! i \<longrightarrow> heap s1 ! a ! i = x0 ! i)) \<and>
           (\<forall>lmbda_p lmbda_n. np_split2 (q s) lmbda = Inr (lmbda_p, lmbda_n) \<longrightarrow>
              lbr_function s1 lmbda =
                Inr (dual_value s1 (vsub (vadd (q s) lmbda_p) lmbda_n) lmbda_p
                       (heap s1 ! a), s1)) \<and>
           lbr_jacobian s1 lmbda = Inr (jacobian_tail s1 a) \<and>
           fst (jacobian_tail s1 a) = vsub (ub s) (heap s1 ! a) @ heap s1 ! a"
proof -
  from assms(1) have ubs: "list_all (\<lambda>u. 0 \<le> u) (ub s)"
    by (simp add: lbr_inv_def)
  have box: "\<And>x0 h. h = project_box (ub s) x0 \<Longrightarrow>
      length h = min (length x0) (length (ub s)) \<and>
      (\<forall>i < length h.
         0 \<le> h ! i \<and> h ! i \<le> ub s ! i \<and>
         (x0 ! i < 0 \<longrightarrow> h ! i = 0) \<and>
         (ub s ! i < x0 ! i \<longrightarrow> h ! i = ub s ! i) \<and>
         (0 \<le> x0 ! i \<and> x0 ! i \<le> ub s ! i \<longrightarrow> h ! i = x0 ! i))"
    using project_box_onto_box [OF ubs] project_box_length by blast
  show ?thesis
  proof (cases "last_lmbda s = Some lmbda")
    case True
    with assms obtain a where a: "last_x s = Some a" "a < length (heap s)"
      and r: "(g, s1) = jacobian_tail s a"
      by (auto simp: lbr_jacobian_def lbr_inv_def split: option.splits)
    from r have g: "g = fst (jacobian_tail s a)" and s1: "s1 = snd (jacobian_tail s a)"
      by (metis fst_conv, metis snd_conv)
    have h: "heap s1 ! a = project_box (ub s) (heap s ! a)"
      using a by (simp add: s1 jacobian_tail_fields)
    have rest: "g = vsub (ub s) (heap s ! a) @ heap s ! a \<and>
        last_lmbda s1 = Some lmbda \<and> last_x s1 = Some a \<and>
        (\<forall>lmbda_p lmbda_n. np_split2 (q s) lmbda = Inr (lmbda_p, lmbda_n) \<longrightarrow>
           lbr_function s1 lmbda =
             Inr (dual_value s1 (vsub (vadd (q s) lmbda_p) lmbda_n) lmbda_p
                    (heap s1 ! a), s1)) \<and>
        lbr_jacobian s1 lmbda = Inr (jacobian_tail s1 a) \<and>
        fst (jacobian_tail s1 a) = vsub (ub s) (heap s1 ! a) @ heap s1 ! a"
      using True a
      by (simp add: g s1 jacobian_tail_fields lbr_function_def lbr_jacobian_def)
    show ?thesis
      apply (rule exI [of _ a], rule exI [of _ "heap s ! a"])
      using True rest h box [OF h] by simp
  next
    case False
    with assms obtain lp ln x0 where sp: "np_split2 (q s) lmbda = Inr (lp, ln)"
      and cs: "cholesky_solve (L s) (vneg (vsub (vadd (q s) lp) ln)) = Inr x0"
      and r: "(g, s1) = jacobian_tail
                (s\<lparr>last_lmbda := Some lmbda, last_x := Some (length (heap s)),
                   heap := heap s @ [x0], n_fact := n_fact s + 1\<rparr>) (length (heap s))"
      by (auto simp: lbr_jacobian_def alloc_def Let_def split: sum.splits prod.splits)
    define a where "a = length (heap s)"
    from r have g: "g = fst (jacobian_tail
                (s\<lparr>last_lmbda := Some lmbda, last_x := Some (length (heap s)),
                   heap := heap s @ [x0], n_fact := n_fact s + 1\<rparr>) (length (heap s)))"
      and s1: "s1 = snd (jacobian_tail
                (s\<lparr>last_lmbda := Some lmbda, last_x := Some (length (heap s)),
                   heap := heap s @ [x0], n_fact := n_fact s + 1\<rparr>) (length (heap s)))"
      by (metis fst_conv, metis snd_conv)
    have h: "heap s1 ! a = project_box (ub s) x0"
      by (simp add: s1 a_def jacobian_tail_fields)
    have rest: "g = vsub (ub s) x0 @ x0 \<and>
        last_lmbda s1 = Some lmbda \<and> last_x s1 = Some a \<and>
        (\<forall>lmbda_p lmbda_n. np_split2 (q s) lmbda = Inr (lmbda_p, lmbda_n) \<longrightarrow>
           lbr_function s1 lmbda =
             Inr (dual_value s1 (vsub (vadd (q s) lmbda_p) lmbda_n) lmbda_p
                    (heap s1 ! a), s1)) \<and>
        lbr_jacobian s1 lmbda = Inr (jacobian_tail s1 a) \<and>
        fst (jacobian_tail s1 a) = vsub (ub s) (heap s1 ! a) @ heap s1 ! a"
      by (simp add: g s1 a_def jacobian_tail_fields lbr_function_def lbr_jacobian_def)
    show ?thesis
      apply (rule exI [of _ a], rule exI [of _ x0])
      using False sp cs rest h box [OF h] by simp
  qed
qed

lemma lbr_ex3_init:
  "lbr_init id [[16, 0, 0], [0, 16, 0], [0, 0, 16]] [-12, 4, -2]
     (quadratic_function [[16, 0, 0], [0, 16, 0], [0, 0, 16]] [-12, 4, -2]) [1, 1, 1] =
   Inr lbr_ex3"
  by (simp add: lbr_init_def lbr_ex3_def lbr_eval_defs sqrt_16)

lemma lbr_ex3_inv: "lbr_inv lbr_ex3"
  by (rule lbr_init_inv [OF lbr_ex3_init])

lemma lbr_ex3_jacobian:
  "lbr_jacobian lbr_ex3 [0, 0, 0, 0, 0, 0] = Inr ([-2, 2, 1/2, 3, -1, 1/2], lbr_ex3_j)"
  by (simp add: lbr_ex3_def lbr_ex3_j_def lbr_eval_defs)

theorem jacobian_leaves_projection_witness:
  "lbr_inv lbr_ex3 \<and>
   lbr_jacobian lbr_ex3 [0, 0, 0, 0, 0, 0] = Inr ([-2, 2, 1/2, 3, -1, 1/2], lbr_ex3_j) \<and>
   cholesky_solve (L lbr_ex3) [12, -4, 2] = Inr [3, -1, 1/2] \<and>
   last_x lbr_ex3_j = Some 0 \<and>
   heap lbr_ex3_j ! 0 = [1, 0, 1/2] \<and>
   lbr_function lbr_ex3_j [0, 0, 0, 0, 0, 0] = Inr (-3, lbr_ex3_j) \<and>
   (\<exists>s2. lbr_jacobian lbr_ex3_j [0, 0, 0, 0, 0, 0] = Inr ([0, 1, 1/2, 1, 0, 1/2], s2))"
proof -
  from jacobian_leaves_projection_in_memo [OF lbr_ex3_inv lbr_ex3_jacobian]
  obtain a where a: "last_x lbr_ex3_j = Some a"
    and f: "\<forall>lmbda_p lmbda_n.
              np_split2 (q lbr_ex3) [0, 0, 0, 0, 0, 0] = Inr (lmbda_p, lmbda_n) \<longrightarrow>
              lbr_function lbr_ex3_j [0, 0, 0, 0, 0, 0] =
                Inr (dual_value lbr_ex3_j (vsub (vadd (q lbr_ex3) lmbda_p) lmbda_n) lmbda_p
                       (heap lbr_ex3_j ! a), lbr_ex3_j)"
    and j: "lbr_jacobian lbr_ex3_j [0, 0, 0, 0, 0, 0] = Inr (jacobian_tail lbr_ex3_j a)"
    and jg: "fst (jacobian_tail lbr_ex3_j a) =
               vsub (ub lbr_ex3) (heap lbr_ex3_j ! a) @ heap lbr_ex3_j ! a"
    by blast
  have a0: "a = 0"
    using a by (simp add: lbr_ex3_j_def lbr_ex3_def)
  have hv: "heap lbr_ex3_j ! 0 = [1, 0, 1/2]"
    by (simp add: lbr_ex3_j_def)
  have sp: "np_split2 (q lbr_ex3) [0, 0, 0, 0, 0, 0] = Inr ([0, 0, 0], [0, 0, 0])"
    by (simp add: np_split2_def lbr_ex3_def)
  have dv: "dual_value lbr_ex3_j (vsub (vadd (q lbr_ex3) [0, 0, 0]) [0, 0, 0]) [0, 0, 0]
              [1, 0, 1/2] = -3"
    by (simp add: lbr_ex3_j_def lbr_ex3_def lbr_eval_defs)
  from f [rule_format, OF sp] have fv: "lbr_function lbr_ex3_j [0, 0, 0, 0, 0, 0] = Inr (-3, lbr_ex3_j)"
    unfolding a0 hv dv .
  have ubv: "ub lbr_ex3 = [1, 1, 1]"
    by (simp add: lbr_ex3_def)
  from jg have "fst (jacobian_tail lbr_ex3_j 0) = [0, 1, 1/2, 1, 0, 1/2]"
    unfolding a0 hv ubv by (simp add: vsub_def)
  with j have j2: "\<exists>s2. lbr_jacobian lbr_ex3_j [0, 0, 0, 0, 0, 0] =
                        Inr ([0, 1, 1/2, 1, 0, 1/2], s2)"
    unfolding a0 by (metis prod.collapse)
  have cs: "cholesky_solve (L lbr_ex3) [12, -4, 2] = Inr [3, -1, 1/2]"
    by (simp add: lbr_ex3_def lbr_eval_defs)
  have lx: "last_x lbr_ex3_j = Some 0"
    using a a0 by simp
  show ?thesis
    by (intro conjI lbr_ex3_inv lbr_ex3_jacobian cs lx hv fv j2)
qed

text \<open>
  C1. Evaluation of the code at \<open>Q = [[16]]\<close>, \<open>q = [-12]\<close>, \<open>ub = [1]\<close>,
  \<open>lmbda = [0, 0]\<close>. The constructor factorizes \<open>Q\<close> into \<open>L = [[4]]\<close>; \<open>function\<close> hands
  \<open>L\<close> to \<open>cholesky_solve\<close>, which factorizes its argument, so a second factorization takes
  place, and the point it returns, \<open>[3]\<close>, solves \<open>(L + L' - diag L) x = 12\<close> and not
  \<open>Q x = -(q + lmbda_p - lmbda_n) = 12\<close>, whose solution is \<open>[3/4]\<close>.
\<close>

theorem function_factorizes_the_factor_again:
  "lbr_init id [[16]] [-12] (quadratic_function [[16]] [-12]) [1] = Inr lbr_ex \<and>
   n_fact lbr_ex = 1 \<and>
   (\<exists>s1. lbr_function lbr_ex [0, 0] = Inr (36, s1) \<and> n_fact s1 = 2 \<and>
         last_x s1 = Some 0 \<and> heap s1 ! 0 = [3]) \<and>
   mat_vec (Q lbr_ex) [3] = [48] \<and>
   vneg (vsub (vadd (q lbr_ex) [0]) [0]) = [12] \<and>
   mat_vec (Q lbr_ex) [3/4] = [12]"
  by (simp add: lbr_init_def lbr_ex_def lbr_eval_defs sqrt_16 mat_vec_def)

text \<open>
  C3. Evaluation of the code on the same object at \<open>lmbda = [0, 0]\<close> and then at
  \<open>lmbda = [11, 0]\<close>. The two heuristic points are \<open>[1]\<close> and \<open>[1/4]\<close>, with primal values
  \<open>-4\<close> and \<open>-5/2\<close>. \<open>jacobian\<close> stores the negated value and compares the next value with
  it: after the first call the cache holds \<open>4\<close>, and the second call, whose value
  \<open>-5/2\<close> is worse than \<open>-4\<close>, replaces the cached point by \<open>[1/4]\<close> and the cached value
  by \<open>5/2\<close>.
\<close>

theorem primal_cache_keeps_negated_value:
  "\<exists>s1 s2. lbr_jacobian lbr_ex [0, 0] = Inr ([-2, 3], s1) \<and>
     heap s1 = [[1]] \<and> primal lbr_ex [1] = -4 \<and>
     primal_x s1 = Some 0 \<and> primal_f_x s1 = Fin 4 \<and>
     lbr_jacobian s1 [11, 0] = Inr ([3/4, 1/4], s2) \<and>
     heap s2 = [[1], [1/4]] \<and> primal lbr_ex [1/4] = -5/2 \<and>
     primal_x s2 = Some 1 \<and> primal_f_x s2 = Fin (5/2)"
  by (simp add: lbr_ex_def lbr_eval_defs)

section \<open>Claims about the accelerated gradient method\<close>

lemma norm2_single: "norm2 [x] = \<bar>x\<bar>"
  by (simp add: norm2_def dot_def power2_eq_square [symmetric])

lemma dot_self_nonneg: "0 \<le> dot xs xs"
  by (induction xs) (simp_all add: dot_def)

lemma norm2_nonneg: "0 \<le> norm2 xs"
  by (simp add: norm2_def dot_self_nonneg)

lemmas ag_eval_defs =
  ag_iteration_def ag_extrapolate_def black_magic_def ag_start_def ag_minimize_def
  norm2_single Let_def vadd_def vsub_def vneg_def vscale_def dot_def

lemma ag_extrapolate_not_returning: "ag_extrapolate P s g a lx \<noteq> Done (Inr r)"
  by (simp add: ag_extrapolate_def Let_def split: prod.splits option.splits)

text \<open>
  With \<open>eps < 0\<close>, a pass that does not start with \<open>f_eval = 1\<close> sets \<open>ng0 = 1\<close> and
  compares the norm with the negative \<open>eps\<close>: it never leaves the loop as optimal.
\<close>

lemma relative_criterion_after_first_pass:
  assumes "ag_eps P < 0" and "f_eval s \<noteq> 1"
  shows "ag_iteration P s \<noteq> Done (Inr (x, Optimal))"
proof -
  have "\<not> norm2 (ag_jacobian P (ag_y s)) \<le> ag_eps P * 1"
    using assms(1) norm2_nonneg [of "ag_jacobian P (ag_y s)"] by simp
  then show ?thesis
    using assms(2)
    by (simp add: ag_iteration_def Let_def ag_extrapolate_not_returning
             split: prod.splits option.splits)
qed

text \<open>
  C2. Evaluation of the code on \<open>f(x) = x^2 / 2\<close> from \<open>[4]\<close> with \<open>eps = -1/2\<close>. The first
  gradient has norm 4. The second pass evaluates the gradient at \<open>y = [3/2]\<close>, of norm
  \<open>3/2 \<le> (-eps) * 4\<close>, and does not stop: \<open>ng0\<close> is recomputed in every pass and is 1 in
  all but the first. The run ends as stopped when the budget is spent.
\<close>

theorem relative_criterion_lost_after_first_pass:
  "ag_eps ag_ex < 0 \<and>
   ag_iteration ag_ex (ag_start [4] (1/2)) = Next ag_ex_s1 \<and>
   norm2 (ag_jacobian ag_ex [4]) = 4 \<and>
   norm2 (ag_jacobian ag_ex (ag_y ag_ex_s1)) = 3/2 \<and>
   3/2 \<le> (- ag_eps ag_ex) * 4 \<and>
   (\<exists>s2. ag_iteration ag_ex ag_ex_s1 = Next s2) \<and>
   ag_minimize 3 ag_ex [4] (1/2) = Some (Inr ([3/4], Stopped))"
  by (simp add: ag_ex_def ag_ex_s1_def ag_eval_defs numeral_3_eq_3)

text \<open>
  C9. In the monotone version with the line search (\<open>mon\<close> not 0, \<open>m1 > 0\<close>) the first
  pass never hands on to a second one: \<open>minimize\<close> returns in the first pass, and what it
  returns is the fault of reading the unbound \<open>xv\<close> exactly when the pass gets through
  the stopping, budget, step-size and unboundedness checks.
\<close>

theorem monotone_line_search_reads_unbound_xv:
  assumes "ag_mon P \<noteq> 0" and "ag_m1 P > 0"
  shows "\<exists>r. ag_iteration P (ag_start x0 a0) = Done r \<and>
             ag_minimize (Suc k) P x0 a0 = Some r \<and>
             (r = Inl UnboundLocalError \<longleftrightarrow>
                (let g = ag_jacobian P x0;
                     ng = norm2 g;
                     res = ag_line_search P (vneg g) x0 (replicate (length x0) 0)
                             (replicate (length x0) 0) 2 (ag_function P x0) (- ng) \<bar>a0\<bar>
                 in \<not> ng \<le> ag_eps P * (if ag_eps P < 0 then - ng else 1) \<and>
                    \<not> 2 > ag_max_f_eval P \<and>
                    \<not> ls_a res \<le> ag_min_a P \<and>
                    \<not> fl_le (Fin (ls_v res)) (ag_m_inf P)))"
  using assms
  by (simp add: ag_minimize_def ag_iteration_def ag_start_def Let_def)

theorem monotone_line_search_witness:
  "ag_mon ag_ex_mon \<noteq> 0 \<and> ag_m1 ag_ex_mon > 0 \<and>
   ag_minimize 1 ag_ex_mon [4] (1/2) = Some (Inl UnboundLocalError)"
proof -
  have m: "ag_mon ag_ex_mon \<noteq> 0" and l: "ag_m1 ag_ex_mon > 0"
    by (simp_all add: ag_ex_mon_def)
  from monotone_line_search_reads_unbound_xv [OF m l, of "[4]" "1/2" 0]
  obtain r where r: "ag_minimize (Suc 0) ag_ex_mon [4] (1/2) = Some r"
    and c: "r = Inl UnboundLocalError \<longleftrightarrow>
              (let g = ag_jacobian ag_ex_mon [4];
                   ng = norm2 g;
                   res = ag_line_search ag_ex_mon (vneg g) [4] (replicate (length [4::real]) 0)
                           (replicate (length [4::real]) 0) 2 (ag_function ag_ex_mon [4]) (- ng)
                           \<bar>1/2\<bar>
               in \<not> ng \<le> ag_eps ag_ex_mon * (if ag_eps ag_ex_mon < 0 then - ng else 1) \<and>
                  \<not> 2 > ag_max_f_eval ag_ex_mon \<and>
                  \<not> ls_a res \<le> ag_min_a ag_ex_mon \<and>
                  \<not> fl_le (Fin (ls_v res)) (ag_m_inf ag_ex_mon))"
    by blast
  from c have "r = Inl UnboundLocalError"
    by (simp add: ag_ex_mon_def ag_ex_def Let_def norm2_single)
  with r m l show ?thesis by simp
qed

section \<open>Claims about the proximal bundle method\<close>

lemmas pb_eval_defs =
  pb_minimize_def pb_start_def pb_iteration_def translated_value_def row_times_col_def
  norm2_single Let_def vadd_def vscale_def dot_def


text \<open>
  The module as written binds none of the solver's names: whatever the objective and
  the start, the first pass of the loop stops at the unbound name.
\<close>

lemma pb_minimize_unbound_names:
  assumes "module_names P = AsWritten" and "pb_start P x0 = Inr s"
  shows "pb_minimize P x0 = Inl NameError"
  using assms by (simp add: pb_minimize_def pb_loop.simps [of P s] pb_iteration_def)

text \<open>
  C4. Evaluation of the code on \<open>f(x) = x^2\<close> from \<open>x = [2]\<close>, with an objective whose
  \<open>function\<close> returns the scalar value. In the module as written \<open>minimize\<close> raises
  \<open>NameError\<close> in its first pass (line 132); with the solver's names bound it raises
  \<open>TypeError\<close> in its first pass (line 135). Neither run returns a pair of a point and a
  status.
\<close>

theorem minimize_raises_instead_of_returning:
  "pb_init pb_ex_unbound = Inr pb_ex_unbound \<and>
   pb_minimize pb_ex_unbound [2] = Inl NameError \<and>
   pb_init pb_ex_scalar = Inr pb_ex_scalar \<and>
   pb_minimize pb_ex_scalar [2] = Inl TypeError"
  by (simp add: pb_init_def pb_loop.simps pb_ex_unbound_def pb_ex_scalar_def pb_eval_defs)

text \<open>
  In one dimension the entry stored for a piece is the constant \<open>f - g * x\<close>.
\<close>

lemma translated_value_single: "translated_value fv [g] [x] = [[fv - g * x]]"
  by (simp add: translated_value_def row_times_col_def)

text \<open>
  C7. Evaluation of the statements before the loop on \<open>f(x) = x1^2 + x2^2\<close> at
  \<open>x = [1, 2]\<close>, where \<open>f = 5\<close> and \<open>g = [2, 4]\<close>. The entry of \<open>F\<close> stored for the first
  piece is \<open>fx - g.T * x\<close> with numpy's elementwise product: the array
  \<open>[[3, 1], [1, -3]]\<close>, and not the constant \<open>f - g . x = -5\<close>. Line 181 writes the same
  product for the pieces of the loop.
\<close>

theorem first_piece_is_not_the_intercept:
  "pb_function pb_ex_scalar [1, 2] = Scalar 5 \<and>
   pb_jacobian pb_ex_scalar [1, 2] = [2, 4] \<and>
   5 - dot [2, 4] [1, 2] = - 5 \<and>
   (\<exists>s. pb_start pb_ex_scalar [1, 2] = Inr s \<and>
        bundle_GF s = [([2, 4], [[3, 1], [1, - 3]])])"
  by (simp add: pb_ex_scalar_def pb_ex_unbound_def pb_eval_defs)

end
